theory Spec2Isabelle
  imports Complex_Main "HOL-Library.Sublist" "HOL-Library.Word"
begin

section \<open>The email body renderer of matcha (view/html.go)\<close>

text \<open>
  Go strings are byte sequences; they are modelled as \<^typ>\<open>string\<close> (lists of 8-bit
  characters).  The process environment, the terminal window-size query, the raster
  decoder, the network and the third-party libraries (quoted-printable reader, goldmark,
  goquery, lipgloss, time) are not part of the repository: they enter the model as fields
  of the records \<open>host\<close> and \<open>lib\<close>, and every theorem holds for all their values.
\<close>

subsection \<open>Characters and the Go \<open>strings\<close> functions used by the renderer\<close>

abbreviation ESC :: char where "ESC \<equiv> CHR 0x1B"
abbreviation BEL :: char where "BEL \<equiv> CHR 0x07"
abbreviation NL :: char where "NL \<equiv> CHR 0x0A"

text \<open>\<open>strings.Contains(s, sub)\<close>.\<close>

fun containsStr :: "string \<Rightarrow> string \<Rightarrow> bool" where
  "containsStr [] sub = (sub = [])"
| "containsStr (c # cs) sub = (prefix sub (c # cs) \<or> containsStr cs sub)"

text \<open>\<open>strings.HasPrefix(s, p)\<close>, \<open>strings.TrimPrefix(s, p)\<close>, \<open>strings.TrimSuffix(s, p)\<close>.\<close>

definition hasPrefix :: "string \<Rightarrow> string \<Rightarrow> bool" where
  "hasPrefix s p = prefix p s"

definition trimPrefix :: "string \<Rightarrow> string \<Rightarrow> string" where
  "trimPrefix s p = (if prefix p s then drop (length p) s else s)"

definition trimSuffix :: "string \<Rightarrow> string \<Rightarrow> string" where
  "trimSuffix s p = (if suffix p s then take (length s - length p) s else s)"

text \<open>
  \<open>strings.ToLower\<close> on the ASCII letters.  (Go also lowers non-ASCII letters; the
  values of the terminal variables are ASCII.)
\<close>

definition toLowerChar :: "char \<Rightarrow> char" where
  "toLowerChar c =
     (case map_of (zip ''ABCDEFGHIJKLMNOPQRSTUVWXYZ'' ''abcdefghijklmnopqrstuvwxyz'') c of
        Some l \<Rightarrow> l
      | None \<Rightarrow> c)"

definition toLower :: "string \<Rightarrow> string" where
  "toLower s = map toLowerChar s"

text \<open>\<open>strings.Trim(s, cutset)\<close> for a cutset of ASCII characters.\<close>

definition trimSet :: "string \<Rightarrow> string \<Rightarrow> string" where
  "trimSet s cutset =
     rev (dropWhile (\<lambda>c. c \<in> set cutset) (rev (dropWhile (\<lambda>c. c \<in> set cutset) s)))"

text \<open>\<open>strings.Repeat(s, n)\<close> and \<open>strings.Join(xs, sep)\<close>.\<close>

definition repeatStr :: "string \<Rightarrow> nat \<Rightarrow> string" where
  "repeatStr s n = concat (replicate n s)"

fun joinStr :: "string list \<Rightarrow> string \<Rightarrow> string" where
  "joinStr [] sep = []"
| "joinStr [x] sep = x"
| "joinStr (x # y # ys) sep = x @ sep @ joinStr (y # ys) sep"

text \<open>The verb \<open>%d\<close> of \<open>fmt.Sprintf\<close> on an \<open>int\<close>.\<close>

definition digitChar :: "nat \<Rightarrow> char" where
  "digitChar d = ''0123456789'' ! d"

function natToDec :: "nat \<Rightarrow> string" where
  "natToDec n = (if n < 10 then [digitChar n] else natToDec (n div 10) @ [digitChar (n mod 10)])"
  by pat_completeness auto
termination
  by (relation "measure id") auto

definition fmtInt :: "int \<Rightarrow> string" where
  "fmtInt i = (if i < 0 then CHR ''-'' # natToDec (nat (- i)) else natToDec (nat i))"

subsection \<open>The host: environment, terminal, raster decoder, network\<close>

text \<open>
  \<open>unix.Winsize\<close> as returned by \<open>unix.IoctlGetWinsize(fd, TIOCGWINSZ)\<close>; only the two
  fields that \<open>getCellHeightFromFd\<close> reads.
\<close>

record winsize =
  Row :: "16 word"
  Ypixel :: "16 word"

datatype fd = Stdout | Stdin | Stderr | DevTty

text \<open>
  \<open>getenv\<close> is \<open>os.Getenv\<close> (the empty string for an unset variable);
  \<open>ioctlGetWinsize\<close> is the window-size query, \<open>None\<close> when it returns an error;
  \<open>ttyOpens\<close> tells whether \<open>os.Open("/dev/tty")\<close> succeeds;
  \<open>imageHeight p\<close> is \<open>Some h\<close> when \<open>base64.StdEncoding.DecodeString(p)\<close> and then
  \<open>image.Decode\<close> succeed, with \<open>h = img.Bounds().Dy()\<close>, and \<open>None\<close> when either fails;
  \<open>remotePng url\<close> is what \<open>fetchRemoteBase64\<close> computes for an http(s) URL: the
  base64 of the re-encoded PNG, or the empty string on any failure.
\<close>

record host =
  getenv :: "string \<Rightarrow> string"
  ioctlGetWinsize :: "fd \<Rightarrow> winsize option"
  ttyOpens :: bool
  imageHeight :: "string \<Rightarrow> int option"
  remotePng :: "string \<Rightarrow> string"

subsection \<open>Terminal cell height\<close>

definition getCellHeightFromFd :: "host \<Rightarrow> fd \<Rightarrow> int" where
  "getCellHeightFromFd h f =
     (case ioctlGetWinsize h f of
        None \<Rightarrow> 0
      | Some ws \<Rightarrow>
          if Row ws > 0 \<and> Ypixel ws > 0
          then (let cellHeight = uint (Ypixel ws) div uint (Row ws)
                in if cellHeight > 0 then cellHeight else 0)
          else 0)"

fun firstCellHeight :: "host \<Rightarrow> fd list \<Rightarrow> int option" where
  "firstCellHeight h [] = None"
| "firstCellHeight h (f # fds) =
     (let cellHeight = getCellHeightFromFd h f
      in if cellHeight > 0 then Some cellHeight else firstCellHeight h fds)"

definition defaultCellHeight :: int where
  "defaultCellHeight = 18"

definition getTerminalCellSize :: "host \<Rightarrow> int" where
  "getTerminalCellSize h =
     (case firstCellHeight h [Stdout, Stdin, Stderr] of
        Some cellHeight \<Rightarrow> cellHeight
      | None \<Rightarrow>
          if ttyOpens h
          then (let cellHeight = getCellHeightFromFd h DevTty
                in if cellHeight > 0 then cellHeight else defaultCellHeight)
          else defaultCellHeight)"

subsection \<open>Capability detection\<close>

definition hyperlinkSupported :: "host \<Rightarrow> bool" where
  "hyperlinkSupported h =
     (let term = toLower (getenv h ''TERM'');
          termProgram = toLower (getenv h ''TERM_PROGRAM'')
      in if list_ex (containsStr term)
              [''kitty'', ''ghostty'', ''wezterm'', ''alacritty'', ''foot'', ''tmux'', ''screen'']
         then True
         else if list_ex (containsStr termProgram)
              [''iterm.app'', ''hyper'', ''vscode'', ''ghostty'', ''wezterm'']
         then True
         else if getenv h ''VTE_VERSION'' \<noteq> [] then True
         else if getenv h ''KITTY_WINDOW_ID'' \<noteq> [] \<or> getenv h ''GHOSTTY_RESOURCES_DIR'' \<noteq> []
                 \<or> getenv h ''WEZTERM_EXECUTABLE'' \<noteq> []
         then True
         else False)"

definition kittySupported :: "host \<Rightarrow> bool" where
  "kittySupported h =
     (if containsStr (toLower (getenv h ''TERM'')) ''kitty'' then True
      else getenv h ''KITTY_WINDOW_ID'' \<noteq> [])"

definition ghosttySupported :: "host \<Rightarrow> bool" where
  "ghosttySupported h =
     (if containsStr (toLower (getenv h ''TERM'')) ''ghostty'' then True
      else if getenv h ''TERM_PROGRAM'' = ''ghostty'' then True
      else getenv h ''GHOSTTY_RESOURCES_DIR'' \<noteq> [])"

definition iterm2Supported :: "host \<Rightarrow> bool" where
  "iterm2Supported h =
     (if toLower (getenv h ''TERM_PROGRAM'') = ''iterm.app'' then True
      else if getenv h ''ITERM_SESSION_ID'' \<noteq> [] \<or> getenv h ''ITERM_PROFILE'' \<noteq> [] then True
      else False)"

definition weztermSupported :: "host \<Rightarrow> bool" where
  "weztermSupported h =
     (if getenv h ''WEZTERM_EXECUTABLE'' \<noteq> [] \<or> getenv h ''WEZTERM_CONFIG_FILE'' \<noteq> [] then True
      else if toLower (getenv h ''TERM_PROGRAM'') = ''wezterm'' then True
      else if containsStr (toLower (getenv h ''TERM'')) ''wezterm'' then True
      else False)"

definition waystSupported :: "host \<Rightarrow> bool" where
  "waystSupported h =
     (if containsStr (toLower (getenv h ''TERM'')) ''wayst'' then True
      else if toLower (getenv h ''TERM_PROGRAM'') = ''wayst'' then True
      else False)"

definition warpSupported :: "host \<Rightarrow> bool" where
  "warpSupported h =
     (if toLower (getenv h ''TERM_PROGRAM'') = ''warp'' then True
      else if getenv h ''WARP_IS_LOCAL_SHELL_SESSION'' \<noteq> []
              \<or> getenv h ''WARP_COMBINED_PROMPT_COMMAND_FINISHED'' \<noteq> [] then True
      else False)"

definition konsoleSupported :: "host \<Rightarrow> bool" where
  "konsoleSupported h =
     (if getenv h ''KONSOLE_DBUS_SESSION'' \<noteq> [] \<or> getenv h ''KONSOLE_VERSION'' \<noteq> [] then True
      else if toLower (getenv h ''TERM_PROGRAM'') = ''konsole'' then True
      else False)"

definition imageProtocolSupported :: "host \<Rightarrow> bool" where
  "imageProtocolSupported h =
     (kittySupported h \<or> ghosttySupported h \<or> iterm2Supported h \<or>
      weztermSupported h \<or> waystSupported h \<or> warpSupported h \<or> konsoleSupported h)"

subsection \<open>Image encoders\<close>

definition imageRowPlaceholderPrefix :: string where
  "imageRowPlaceholderPrefix = ''[[MATCHA_IMG_ROWS:''"

definition imageRowPlaceholderSuffix :: string where
  "imageRowPlaceholderSuffix = '']]''"

definition chunkSize :: nat where
  "chunkSize = 4096"

text \<open>
  Go's \<open>int\<close> is 64 bits wide here: \<open>int64\<close> wraps a mathematical integer into that range,
  and \<open>goDiv\<close> is Go's \<open>/\<close>, which truncates towards zero.
\<close>

definition int64 :: "int \<Rightarrow> int" where
  "int64 x = signed_take_bit 63 x"

definition goDiv :: "int \<Rightarrow> int \<Rightarrow> int" where
  "goDiv a b = sgn a * sgn b * (\<bar>a\<bar> div \<bar>b\<bar>)"

text \<open>
  The row computation that opens both \<open>kittyInlineImage\<close> and \<open>iterm2InlineImage\<close>.
\<close>

definition imageRows :: "host \<Rightarrow> string \<Rightarrow> int" where
  "imageRows h payload =
     (case imageHeight h payload of
        None \<Rightarrow> 1
      | Some ht \<Rightarrow>
          (let cellHeight = getTerminalCellSize h;
               rows = goDiv (int64 (int64 (ht + cellHeight) - 1)) cellHeight
           in if rows < 1 then 1 else rows))"

text \<open>The chunk loop of \<open>kittyInlineImage\<close>, from \<open>offset\<close> on.\<close>

function kittyChunks :: "string \<Rightarrow> nat \<Rightarrow> string" where
  "kittyChunks payload offset =
     (if offset < length payload
      then (let endOff = (if offset + chunkSize > length payload then length payload
                          else offset + chunkSize);
                more = (if endOff < length payload then ''1'' else ''0'');
                chunk = take (endOff - offset) (drop offset payload)
            in (if offset = 0
                then [ESC] @ ''_Gf=100,a=T,q=2,C=1,m='' @ more @ '';'' @ chunk @ [ESC] @ [CHR 0x5C]
                else [ESC] @ ''_Gm='' @ more @ '';'' @ chunk @ [ESC] @ [CHR 0x5C])
               @ kittyChunks payload (offset + chunkSize))
      else [])"
  by pat_completeness auto
termination
  by (relation "measure (\<lambda>(payload, offset). length payload - offset)")
     (auto simp: chunkSize_def)

definition kittyInlineImage :: "host \<Rightarrow> string \<Rightarrow> string" where
  "kittyInlineImage h payload =
     (if payload = [] then []
      else kittyChunks payload 0
           @ [NL] @ imageRowPlaceholderPrefix @ fmtInt (imageRows h payload)
           @ imageRowPlaceholderSuffix @ [NL])"

definition iterm2InlineImage :: "host \<Rightarrow> string \<Rightarrow> string" where
  "iterm2InlineImage h payload =
     (if payload = [] then []
      else ([ESC] @ '']1337;File=inline=1:'' @ payload @ [BEL] @ [NL])
           @ (imageRowPlaceholderPrefix @ fmtInt (imageRows h payload)
              @ imageRowPlaceholderSuffix @ [NL]))"

definition renderInlineImage :: "host \<Rightarrow> string \<Rightarrow> string" where
  "renderInlineImage h payload =
     (if payload = [] then []
      else if kittySupported h \<or> ghosttySupported h \<or> weztermSupported h
              \<or> waystSupported h \<or> konsoleSupported h
      then kittyInlineImage h payload
      else if iterm2Supported h \<or> warpSupported h
      then iterm2InlineImage h payload
      else [])"

subsection \<open>The regular expressions of the renderer\<close>

text \<open>
  Go's \<open>regexp\<close> package returns the leftmost match and, among the matches that start
  there, the one a backtracking search finds first.  The renderer's patterns use literals,
  a repeated character class (\<open>\s+\<close>, \<open>\d+\<close>, \<open>.+?\<close>, \<open>\n{3,}\<close>), capturing groups that
  are not nested, and the anchors \<open>^\<close> and \<open>$\<close>; \<open>re\<close> is that fragment.
  \<open>Rep cls m greedy\<close> is the class \<open>cls\<close> repeated at least \<open>m\<close> times, preferring more
  repetitions when \<open>greedy\<close> and fewer otherwise.

  \<open>matches r (i, s, caps)\<close> lists, in the order a backtracking search tries them, the ways
  \<open>r\<close> can match at offset \<open>i\<close> of the text, where \<open>s\<close> is the text from \<open>i\<close> on: each is the
  offset and the text after the match, and the groups captured so far.
\<close>

datatype re =
    Lit string
  | Rep "char \<Rightarrow> bool" nat bool
  | Grp re
  | Cat re re
  | Bol
  | Eol

type_synonym mstate = "nat \<times> string \<times> string list"

fun matches :: "re \<Rightarrow> mstate \<Rightarrow> mstate list" where
  "matches (Lit l) (i, s, caps) =
     (if prefix l s then [(i + length l, drop (length l) s, caps)] else [])"
| "matches (Rep cls m greedy) (i, s, caps) =
     (let k = length (takeWhile cls s);
          ns = (if greedy then rev [m ..< Suc k] else [m ..< Suc k])
      in map (\<lambda>n. (i + n, drop n s, caps)) ns)"
| "matches (Grp r) (i, s, caps) =
     map (\<lambda>(j, s', caps'). (j, s', caps' @ [take (j - i) s])) (matches r (i, s, caps))"
| "matches (Cat a b) st = concat (map (matches b) (matches a st))"
| "matches Bol (i, s, caps) = (if i = 0 then [(i, s, caps)] else [])"
| "matches Eol (i, s, caps) = (if s = [] then [(i, s, caps)] else [])"

fun seqRe :: "re list \<Rightarrow> re" where
  "seqRe [] = Lit []"
| "seqRe [r] = r"
| "seqRe (r # rs) = Cat r (seqRe rs)"

text \<open>
  \<open>FindStringSubmatch\<close>: the text of the leftmost match followed by the text of its
  groups, \<open>None\<close> for Go's \<open>nil\<close>.  \<open>findFrom r i s\<close> searches the text from offset \<open>i\<close> on.
\<close>

fun findFrom :: "re \<Rightarrow> nat \<Rightarrow> string \<Rightarrow> string list option" where
  "findFrom r i [] =
     (case matches r (i, [], []) of
        (j, s', caps) # _ \<Rightarrow> Some ([] # caps)
      | [] \<Rightarrow> None)"
| "findFrom r i (c # cs) =
     (case matches r (i, c # cs, []) of
        (j, s', caps) # _ \<Rightarrow> Some (take (j - i) (c # cs) # caps)
      | [] \<Rightarrow> findFrom r (Suc i) cs)"

definition findStringSubmatch :: "re \<Rightarrow> string \<Rightarrow> string list option" where
  "findStringSubmatch r s = findFrom r 0 s"

text \<open>
  \<open>ReplaceAllStringFunc\<close>: the matches are found from left to right and do not overlap.
  \<open>matchLen r i s\<close> is the length of the match of \<open>r\<close> at offset \<open>i\<close>, where \<open>s\<close> is the
  text from \<open>i\<close> on, and 0 when there is none.  None of the renderer's patterns matches
  the empty string; the model copies the text where the match is empty.
\<close>

definition matchLen :: "re \<Rightarrow> nat \<Rightarrow> string \<Rightarrow> nat" where
  "matchLen r i s = (case matches r (i, s, []) of (j, s', caps) # _ \<Rightarrow> j - i | [] \<Rightarrow> 0)"

function replaceAllFrom :: "re \<Rightarrow> (string \<Rightarrow> string) \<Rightarrow> nat \<Rightarrow> string \<Rightarrow> string" where
  "replaceAllFrom r f i [] = []"
| "replaceAllFrom r f i (c # cs) =
     (if 0 < matchLen r i (c # cs)
      then f (take (matchLen r i (c # cs)) (c # cs))
           @ replaceAllFrom r f (i + matchLen r i (c # cs)) (drop (matchLen r i (c # cs)) (c # cs))
      else c # replaceAllFrom r f (Suc i) cs)"
  by pat_completeness auto
termination
  by (relation "measure (\<lambda>(r, f, i, s). length s)") auto

definition replaceAllStringFunc :: "re \<Rightarrow> string \<Rightarrow> (string \<Rightarrow> string) \<Rightarrow> string" where
  "replaceAllStringFunc r text f = replaceAllFrom r f 0 text"

text \<open>The classes \<open>\d\<close>, \<open>\s\<close> and \<open>.\<close> of Go's syntax (without flags).\<close>

definition isDigit :: "char \<Rightarrow> bool" where
  "isDigit c = (c \<in> set ''0123456789'')"

definition isReSpace :: "char \<Rightarrow> bool" where
  "isReSpace c = (c \<in> set [CHR 0x09, CHR 0x0A, CHR 0x0C, CHR 0x0D, CHR 0x20])"

definition isAnyChar :: "char \<Rightarrow> bool" where
  "isAnyChar c = (c \<noteq> NL)"

text \<open>
  \<open>fmt.Sscanf(s, "%d", &n)\<close> on a string of decimal digits, which is all the two callers
  pass: the value when it fits an \<open>int\<close>, \<open>None\<close> for the error (\<open>n\<close> is then left as it was).
\<close>

definition digitVal :: "char \<Rightarrow> nat" where
  "digitVal c = (case map_of (zip ''0123456789'' [0, 1, 2, 3, 4, 5, 6, 7, 8, 9]) c of
                   Some d \<Rightarrow> d | None \<Rightarrow> 0)"

definition decVal :: "string \<Rightarrow> nat" where
  "decVal s = foldl (\<lambda>a c. 10 * a + digitVal c) 0 s"

definition sscanfInt :: "string \<Rightarrow> int option" where
  "sscanfInt s =
     (if s \<noteq> [] \<and> list_all isDigit s \<and> decVal s < 2 ^ 63 then Some (int (decVal s))
      else None)"

subsection \<open>Whitespace trimming and splitting\<close>

text \<open>
  \<open>strings.TrimSpace\<close> removes the leading and trailing white space that
  \<open>unicode.IsSpace\<close> accepts; \<open>unicodeSpaces\<close> lists the UTF-8 encodings of those
  characters.
\<close>

definition unicodeSpaces :: "string list" where
  "unicodeSpaces =
     [[CHR 0x09], [CHR 0x0A], [CHR 0x0B], [CHR 0x0C], [CHR 0x0D], [CHR 0x20],
      [CHR 0xC2, CHR 0x85], [CHR 0xC2, CHR 0xA0], [CHR 0xE1, CHR 0x9A, CHR 0x80],
      [CHR 0xE2, CHR 0x80, CHR 0x80], [CHR 0xE2, CHR 0x80, CHR 0x81],
      [CHR 0xE2, CHR 0x80, CHR 0x82], [CHR 0xE2, CHR 0x80, CHR 0x83],
      [CHR 0xE2, CHR 0x80, CHR 0x84], [CHR 0xE2, CHR 0x80, CHR 0x85],
      [CHR 0xE2, CHR 0x80, CHR 0x86], [CHR 0xE2, CHR 0x80, CHR 0x87],
      [CHR 0xE2, CHR 0x80, CHR 0x88], [CHR 0xE2, CHR 0x80, CHR 0x89],
      [CHR 0xE2, CHR 0x80, CHR 0x8A], [CHR 0xE2, CHR 0x80, CHR 0xA8],
      [CHR 0xE2, CHR 0x80, CHR 0xA9], [CHR 0xE2, CHR 0x80, CHR 0xAF],
      [CHR 0xE2, CHR 0x81, CHR 0x9F], [CHR 0xE3, CHR 0x80, CHR 0x80]]"

definition leadingSpace :: "string \<Rightarrow> nat" where
  "leadingSpace s =
     (case find (\<lambda>w. prefix w s) unicodeSpaces of Some w \<Rightarrow> length w | None \<Rightarrow> 0)"

definition trailingSpace :: "string \<Rightarrow> nat" where
  "trailingSpace s =
     (case find (\<lambda>w. suffix w s) unicodeSpaces of Some w \<Rightarrow> length w | None \<Rightarrow> 0)"

function trimLeftSpace :: "string \<Rightarrow> string" where
  "trimLeftSpace s =
     (if 0 < leadingSpace s \<and> s \<noteq> [] then trimLeftSpace (drop (leadingSpace s) s) else s)"
  by pat_completeness auto
termination
  by (relation "measure length") auto

function trimRightSpace :: "string \<Rightarrow> string" where
  "trimRightSpace s =
     (if 0 < trailingSpace s \<and> s \<noteq> []
      then trimRightSpace (take (length s - trailingSpace s) s) else s)"
  by pat_completeness auto
termination
  by (relation "measure length") auto

definition trimSpace :: "string \<Rightarrow> string" where
  "trimSpace s = trimRightSpace (trimLeftSpace s)"

text \<open>\<open>strings.Split(s, "\n")\<close>.\<close>

fun splitLines :: "string \<Rightarrow> string list" where
  "splitLines [] = [[]]"
| "splitLines (c # cs) =
     (if c = NL then [] # splitLines cs
      else (case splitLines cs of l # ls \<Rightarrow> (c # l) # ls | [] \<Rightarrow> [[c]]))"

subsection \<open>The libraries\<close>

text \<open>
  A lipgloss style is modelled by its \<open>Render\<close> method.  A goquery selection is seen by
  the callback of \<open>Each\<close> as an \<open>elem\<close>: its attributes (\<open>s.Attr\<close>), its text (\<open>s.Text()\<close>)
  and the text of the element sibling before it (\<open>s.Prev().Text()\<close>, \<open>None\<close> when the
  selection \<open>s.Prev()\<close> is empty).  What the callback does to the document is the list of
  its \<open>edit\<close>s, in the order it makes them.
\<close>

type_synonym style = "string \<Rightarrow> string"

record elem =
  attr :: "string \<Rightarrow> string option"
  elemText :: string
  prevText :: "string option"

datatype edit =
    SetText string
  | After string
  | ReplaceWithHtml string
  | RemovePrev
  | Remove

record quote =
  qfrom :: string
  qdate :: string
  qcontent :: string

text \<open>
  \<open>qpReadAll\<close> is \<open>io.ReadAll(quotedprintable.NewReader(...))\<close> and \<open>goldmarkConvert\<close> is
  \<open>Convert\<close> of the goldmark instance with raw HTML allowed, both with \<open>Inl\<close> for an error;
  \<open>newDocument\<close> is \<open>goquery.NewDocumentFromReader\<close>;
  \<open>findEach sel f doc q\<close> is \<open>doc.Find(sel).Each(f)\<close> for a callback \<open>f\<close> that reads and
  extends the list \<open>quoteData\<close>, which starts as \<open>q\<close>: it gives the document after the
  callbacks' edits and the final list; \<open>docText\<close> is \<open>doc.Text()\<close>;
  \<open>timeParse layout s\<close> is \<open>time.Parse\<close>, \<open>None\<close> for an error, and \<open>timeFormat\<close> is
  \<open>Time.Format\<close>; \<open>quoteBoxStyle\<close> and \<open>quoteHeaderStyle\<close> are the two package-level styles.
\<close>

record ('doc, 'time) lib =
  qpReadAll :: "string \<Rightarrow> string + string"
  goldmarkConvert :: "string \<Rightarrow> string + string"
  newDocument :: "string \<Rightarrow> string + 'doc"
  findEach :: "string \<Rightarrow> (quote list \<Rightarrow> elem \<Rightarrow> edit list \<times> quote list)
                 \<Rightarrow> 'doc \<Rightarrow> quote list \<Rightarrow> 'doc \<times> quote list"
  docText :: "'doc \<Rightarrow> string"
  timeParse :: "string \<Rightarrow> string \<Rightarrow> 'time option"
  timeFormat :: "'time \<Rightarrow> string \<Rightarrow> string"
  quoteBoxStyle :: style
  quoteHeaderStyle :: style

subsection \<open>Hyperlinks, decoding, image sources\<close>

definition hyperlink :: "host \<Rightarrow> string \<Rightarrow> string \<Rightarrow> string" where
  "hyperlink h url text0 =
     (let text = (if text0 = [] then url else text0);
          supported = hyperlinkSupported h
      in if supported
         then [ESC] @ '']8;;'' @ url @ [BEL] @ text @ [ESC] @ '']8;;'' @ [BEL]
         else if text = url then ''&lt;'' @ url @ ''&gt;''
         else text @ '' &lt;'' @ url @ ''&gt;'')"

definition decodeQuotedPrintable :: "('doc, 'time) lib \<Rightarrow> string \<Rightarrow> string + string" where
  "decodeQuotedPrintable L s =
     (case qpReadAll L s of Inl err \<Rightarrow> Inl err | Inr body \<Rightarrow> Inr body)"

definition markdownToHTML :: "('doc, 'time) lib \<Rightarrow> string \<Rightarrow> string" where
  "markdownToHTML L md = (case goldmarkConvert L md of Inl err \<Rightarrow> md | Inr buf \<Rightarrow> buf)"

definition fetchRemoteBase64 :: "host \<Rightarrow> string \<Rightarrow> string" where
  "fetchRemoteBase64 h url =
     (if \<not> hasPrefix url ''http://'' \<and> \<not> hasPrefix url ''https://'' then []
      else remotePng h url)"

text \<open>\<open>strings.Index(uri, ",")\<close> is the length of the part before the first comma.\<close>

definition dataURIBase64 :: "string \<Rightarrow> string" where
  "dataURIBase64 uri =
     (if \<not> hasPrefix uri ''data:'' then []
      else (let comma = length (takeWhile (\<lambda>c. c \<noteq> CHR '','') uri)
            in if CHR '','' \<notin> set uri \<or> comma + 1 \<ge> length uri then []
               else drop (comma + 1) uri))"

subsection \<open>Quote boxes and the plain-text quote pass\<close>

definition dateFormats :: "string list" where
  "dateFormats =
     [''Jan 2, 2006 at 3:04 PM'', ''02:01:06 15:04'', ''2006-01-02 15:04:05'',
      ''Mon, 02 Jan 2006 15:04:05 -0700'', ''Mon, 2 Jan 2006 15:04:05 -0700'',
      ''2 Jan 2006 15:04:05'', ''January 2, 2006 at 3:04 PM'', ''Jan 2, 2006 3:04 PM'',
      ''Mon, 02 Jan 2006 15:04:05 -0700'', ''Mon, 02 Jan 2006 15:04:05 MST'',
      ''02 Jan 06 15:04 -0700'', ''02 Jan 06 15:04 MST'']"

fun parseWith :: "('doc, 'time) lib \<Rightarrow> string list \<Rightarrow> string \<Rightarrow> string" where
  "parseWith L [] dateStr = dateStr"
| "parseWith L (format # formats) dateStr =
     (case timeParse L format dateStr of
        Some t \<Rightarrow> timeFormat L t ''02:01:06 15:04''
      | None \<Rightarrow> parseWith L formats dateStr)"

definition parseDateForDisplay :: "('doc, 'time) lib \<Rightarrow> string \<Rightarrow> string" where
  "parseDateForDisplay L dateStr = parseWith L dateFormats dateStr"

definition renderQuoteBox :: "('doc, 'time) lib \<Rightarrow> string \<Rightarrow> string \<Rightarrow> string list \<Rightarrow> string" where
  "renderQuoteBox L from date lines =
     (let header =
            (if from \<noteq> [] \<or> date \<noteq> []
             then (if from \<noteq> [] \<and> date \<noteq> [] then quoteHeaderStyle L (from @ ''  '' @ date)
                   else if from \<noteq> [] then quoteHeaderStyle L from
                   else quoteHeaderStyle L date)
             else []);
          content = joinStr lines [NL];
          boxContent = (if header \<noteq> [] then header @ [NL, NL] @ content else content)
      in quoteBoxStyle L boxContent)"

text \<open>
  The pattern \<open>On\s+(.+?),\s+(.+?)\s+wrote:\<close> of \<open>processBody\<close> and the anchored
  \<open>^On\s+(.+?),\s+(.+?)\s+wrote:$\<close> of \<open>styleQuotedReplies\<close>.
\<close>

definition onWroteBody :: "re list" where
  "onWroteBody =
     [Lit ''On'', Rep isReSpace 1 True, Grp (Rep isAnyChar 1 False), Lit '','',
      Rep isReSpace 1 True, Grp (Rep isAnyChar 1 False), Rep isReSpace 1 True, Lit ''wrote:'']"

definition onWroteRegex :: re where
  "onWroteRegex = seqRe onWroteBody"

definition onWroteLineRegex :: re where
  "onWroteLineRegex = seqRe ([Bol] @ onWroteBody @ [Eol])"

text \<open>
  The state of the line scan of \<open>styleQuotedReplies\<close>, and one pass of its loop body:
  \<open>line\<close> is \<open>lines[i]\<close> and \<open>rest\<close> the lines after it.
\<close>

record qstate =
  result :: "string list"
  quoteBlock :: "string list"
  quoteFrom :: string
  quoteDate :: string
  inQuote :: bool

definition nextIsQuoted :: "string list \<Rightarrow> bool" where
  "nextIsQuoted rest =
     (case rest of [] \<Rightarrow> False | next # _ \<Rightarrow> hasPrefix (trimSpace next) ''>'')"

definition styleStep :: "('doc, 'time) lib \<Rightarrow> string \<Rightarrow> string list \<Rightarrow> qstate \<Rightarrow> qstate" where
  "styleStep L line rest st =
     (let trimmedLine = trimSpace line
      in case findStringSubmatch onWroteLineRegex trimmedLine of
           Some ms \<Rightarrow>
             (let st1 = (if inQuote st \<and> length (quoteBlock st) > 0
                         then st\<lparr>result := result st
                                    @ [renderQuoteBox L (quoteFrom st) (quoteDate st) (quoteBlock st)],
                                 quoteBlock := []\<rparr>
                         else st);
                  dateStr = ms ! 1
              in st1\<lparr>quoteFrom := ms ! 2, quoteDate := parseDateForDisplay L dateStr,
                     inQuote := True\<rparr>)
         | None \<Rightarrow>
             if hasPrefix trimmedLine ''>''
             then (let st1 = (if \<not> inQuote st
                              then st\<lparr>inQuote := True, quoteFrom := [], quoteDate := []\<rparr>
                              else st);
                       quotedContent = trimPrefix (trimPrefix trimmedLine ''>'') '' ''
                   in st1\<lparr>quoteBlock := quoteBlock st1 @ [quotedContent]\<rparr>)
             else if inQuote st
             then (if trimmedLine = [] \<and> nextIsQuoted rest
                   then st\<lparr>quoteBlock := quoteBlock st @ [[]]\<rparr>
                   else if trimmedLine = [] \<and> length (quoteBlock st) = 0
                   then st
                   else (let st1 = (if length (quoteBlock st) > 0
                                    then st\<lparr>result := result st
                                               @ [renderQuoteBox L (quoteFrom st) (quoteDate st)
                                                    (quoteBlock st)],
                                            quoteBlock := []\<rparr>
                                    else st)
                         in st1\<lparr>inQuote := False, quoteFrom := [], quoteDate := [],
                                result := result st1 @ [line]\<rparr>))
             else st\<lparr>result := result st @ [line]\<rparr>)"

fun styleLoop :: "('doc, 'time) lib \<Rightarrow> string list \<Rightarrow> qstate \<Rightarrow> qstate" where
  "styleLoop L [] st = st"
| "styleLoop L (line # rest) st = styleLoop L rest (styleStep L line rest st)"

definition styleQuotedLines :: "('doc, 'time) lib \<Rightarrow> string list \<Rightarrow> string list" where
  "styleQuotedLines L lines =
     (let st = styleLoop L lines
                 \<lparr>result = [], quoteBlock = [], quoteFrom = [], quoteDate = [], inQuote = False\<rparr>
      in if inQuote st \<and> length (quoteBlock st) > 0
         then result st @ [renderQuoteBox L (quoteFrom st) (quoteDate st) (quoteBlock st)]
         else result st)"

definition styleQuotedReplies :: "('doc, 'time) lib \<Rightarrow> string \<Rightarrow> string" where
  "styleQuotedReplies L text = joinStr (styleQuotedLines L (splitLines text)) [NL]"

subsection \<open>Placeholders\<close>

definition placeholderRe :: "string \<Rightarrow> string \<Rightarrow> re" where
  "placeholderRe pre suf = seqRe [Lit pre, Grp (Rep isDigit 1 True), Lit suf]"

text \<open>The function that \<open>expandImageRowPlaceholders\<close> passes to \<open>ReplaceAllStringFunc\<close>.\<close>

definition imageRowExpansion :: "string \<Rightarrow> string" where
  "imageRowExpansion match =
     (let numStr = trimSuffix (trimPrefix match imageRowPlaceholderPrefix)
                     imageRowPlaceholderSuffix;
          rows = (case sscanfInt numStr of
                    None \<Rightarrow> 1
                  | Some rows \<Rightarrow> if rows < 1 then 1 else rows)
      in repeatStr [NL] (nat rows))"

definition expandImageRowPlaceholders :: "string \<Rightarrow> string" where
  "expandImageRowPlaceholders text =
     replaceAllStringFunc (placeholderRe imageRowPlaceholderPrefix imageRowPlaceholderSuffix)
       text imageRowExpansion"

definition quoteRegex :: re where
  "quoteRegex = placeholderRe ''[[MATCHA_QUOTE:'' '']]''"

text \<open>
  The replacement of the quote placeholders in \<open>processBody\<close>; \<open>quoteReplacement\<close> is the
  function passed to \<open>ReplaceAllStringFunc\<close>.  The error of \<open>Sscanf\<close> is not looked at, so
  \<open>idx\<close> keeps its initial 0 when the scan fails.  Indexing the result of
  \<open>FindStringSubmatch\<close> panics in Go when it is \<open>nil\<close>; \<open>match\<close> is a match of the same
  pattern, so that does not happen, and the model leaves \<open>match\<close> in place there.
\<close>

definition quoteReplacement :: "('doc, 'time) lib \<Rightarrow> quote list \<Rightarrow> string \<Rightarrow> string" where
  "quoteReplacement L quoteData match =
     (case findStringSubmatch quoteRegex match of
        None \<Rightarrow> match
      | Some ms \<Rightarrow>
          (let idxStr = ms ! 1;
               idx = (case sscanfInt idxStr of None \<Rightarrow> 0 | Some v \<Rightarrow> v)
           in if idx \<ge> 0 \<and> idx < int (length quoteData)
              then (let q = quoteData ! nat idx
                    in renderQuoteBox L (qfrom q) (qdate q) (splitLines (qcontent q)))
              else match))"

definition replaceQuotePlaceholders :: "('doc, 'time) lib \<Rightarrow> quote list \<Rightarrow> string \<Rightarrow> string" where
  "replaceQuotePlaceholders L quoteData text =
     replaceAllStringFunc quoteRegex text (quoteReplacement L quoteData)"

subsection \<open>The pipeline\<close>

record InlineImage =
  CID :: string
  Base64 :: string

datatype error = CouldNotParse string

text \<open>
  \<open>each L sel f doc\<close> is \<open>doc.Find(sel).Each(f)\<close> for a callback that leaves \<open>quoteData\<close>
  alone.
\<close>

definition each :: "('doc, 'time) lib \<Rightarrow> string \<Rightarrow> (elem \<Rightarrow> edit list) \<Rightarrow> 'doc \<Rightarrow> 'doc" where
  "each L sel f doc = fst (findEach L sel (\<lambda>quoteData s. (f s, quoteData)) doc [])"

definition removeCallback :: "elem \<Rightarrow> edit list" where
  "removeCallback s = [Remove]"

definition headerCallback :: "style \<Rightarrow> elem \<Rightarrow> edit list" where
  "headerCallback hStyle s = [SetText (hStyle (elemText s))]"

definition spacingCallback :: "elem \<Rightarrow> edit list" where
  "spacingCallback s = [After [NL, NL]]"

definition brCallback :: "elem \<Rightarrow> edit list" where
  "brCallback s = [ReplaceWithHtml [NL]]"

definition blockquoteCallback ::
  "('doc, 'time) lib \<Rightarrow> quote list \<Rightarrow> elem \<Rightarrow> edit list \<times> quote list" where
  "blockquoteCallback L quoteData s =
     (let cite = (case attr s ''cite'' of Some c \<Rightarrow> c | None \<Rightarrow> []);
          quoteText = trimSpace (elemText s);
          prevText = (case prevText s of Some t \<Rightarrow> trimSpace t | None \<Rightarrow> []);
          (from, date, edits) =
            (case findStringSubmatch onWroteRegex prevText of
               Some ms \<Rightarrow> (ms ! 2, parseDateForDisplay L (ms ! 1), [RemovePrev])
             | None \<Rightarrow>
                 (case findStringSubmatch onWroteRegex cite of
                    Some ms \<Rightarrow> (ms ! 2, parseDateForDisplay L (ms ! 1), [])
                  | None \<Rightarrow> ([], [], [])));
          quoteData' = quoteData @ [\<lparr>qfrom = from, qdate = date, qcontent = quoteText\<rparr>];
          placeholder = [NL] @ ''[[MATCHA_QUOTE:'' @ fmtInt (int (length quoteData') - 1)
                        @ '']]'' @ [NL]
      in (edits @ [ReplaceWithHtml placeholder], quoteData'))"

definition anchorCallback :: "host \<Rightarrow> elem \<Rightarrow> edit list" where
  "anchorCallback h s =
     (case attr s ''href'' of
        None \<Rightarrow> []
      | Some href \<Rightarrow> [ReplaceWithHtml (hyperlink h href (elemText s))])"

definition imageFallback :: "host \<Rightarrow> string \<Rightarrow> string \<Rightarrow> string" where
  "imageFallback h src alt =
     (if hyperlinkSupported h
      then hyperlink h src ([NL] @ '' [Click here to view image: '' @ alt @ ''] '' @ [NL])
      else [NL] @ '' [Image: '' @ alt @ '', '' @ src @ ''] '' @ [NL])"

definition imagePayload :: "host \<Rightarrow> (string \<rightharpoonup> string) option \<Rightarrow> string \<Rightarrow> string" where
  "imagePayload h inline src =
     (if hasPrefix src ''data:image/'' then dataURIBase64 src
      else if hasPrefix src ''cid:''
      then (let cid = trimSet (trimPrefix src ''cid:'') ''<>''
            in case inline of
                 Some m \<Rightarrow> (case m cid of Some payload \<Rightarrow> payload | None \<Rightarrow> [])
               | None \<Rightarrow> [])
      else if hasPrefix src ''http://'' \<or> hasPrefix src ''https://''
      then fetchRemoteBase64 h src
      else [])"

definition imgCallback ::
  "host \<Rightarrow> (string \<rightharpoonup> string) option \<Rightarrow> bool \<Rightarrow> elem \<Rightarrow> edit list" where
  "imgCallback h inline disableImages s =
     (case attr s ''src'' of
        None \<Rightarrow> []
      | Some src \<Rightarrow>
          (let alt0 = (case attr s ''alt'' of Some a \<Rightarrow> a | None \<Rightarrow> []);
               alt = (if alt0 = [] then ''Does not contain alt text'' else alt0);
               fallback = [ReplaceWithHtml (imageFallback h src alt)]
           in if \<not> disableImages \<and> imageProtocolSupported h
              then (let payload = imagePayload h inline src
                    in if payload \<noteq> []
                       then (let rendered = renderInlineImage h payload
                             in if rendered \<noteq> []
                                then [ReplaceWithHtml ([NL] @ rendered @ [NL])]
                                else fallback)
                       else fallback)
              else fallback))"

text \<open>The text passes that follow \<open>doc.Text()\<close>, up to the body style.\<close>

definition newlineRun :: re where
  "newlineRun = Rep (\<lambda>c. c = NL) 3 True"

definition finalizeText :: "('doc, 'time) lib \<Rightarrow> quote list \<Rightarrow> string \<Rightarrow> string" where
  "finalizeText L quoteData text0 =
     (let text1 = replaceAllStringFunc newlineRun text0 (\<lambda>m. [NL, NL]);
          text2 = expandImageRowPlaceholders text1;
          text3 = replaceQuotePlaceholders L quoteData text2
      in styleQuotedReplies L text3)"

definition processBody ::
  "('doc, 'time) lib \<Rightarrow> host \<Rightarrow> string \<Rightarrow> (string \<rightharpoonup> string) option
     \<Rightarrow> style \<Rightarrow> style \<Rightarrow> style \<Rightarrow> bool \<Rightarrow> error + string" where
  "processBody L h rawBody inline h1Style h2Style bodyStyle disableImages =
     (let decodedBody = (case decodeQuotedPrintable L rawBody of
                           Inl err \<Rightarrow> rawBody
                         | Inr d \<Rightarrow> d);
          htmlBody = markdownToHTML L decodedBody
      in case newDocument L htmlBody of
           Inl err \<Rightarrow> Inl (CouldNotParse err)
         | Inr doc0 \<Rightarrow>
             (let doc1 = each L ''style, script'' removeCallback doc0;
                  doc2 = each L ''h1'' (headerCallback h1Style) doc1;
                  doc3 = each L ''h2'' (headerCallback h2Style) doc2;
                  doc4 = each L ''p, div, h1, h2'' spacingCallback doc3;
                  doc5 = each L ''br'' brCallback doc4;
                  (doc6, quoteData) = findEach L ''blockquote'' (blockquoteCallback L) doc5 [];
                  doc7 = each L ''a'' (anchorCallback h) doc6;
                  doc8 = each L ''img'' (imgCallback h inline disableImages) doc7;
                  text = docText L doc8
              in Inr (bodyStyle (finalizeText L quoteData text))))"

fun inlineMapOf :: "InlineImage list \<Rightarrow> (string \<rightharpoonup> string) \<Rightarrow> (string \<rightharpoonup> string)" where
  "inlineMapOf [] inlineMap = inlineMap"
| "inlineMapOf (img # imgs) inlineMap =
     (let cid = trimPrefix (trimSuffix (trimPrefix (trimSpace (CID img)) ''<'') ''>'') ''cid:''
      in if cid = [] \<or> Base64 img = [] then inlineMapOf imgs inlineMap
         else inlineMapOf imgs (inlineMap(cid \<mapsto> Base64 img)))"

definition ProcessBodyWithInline ::
  "('doc, 'time) lib \<Rightarrow> host \<Rightarrow> string \<Rightarrow> InlineImage list
     \<Rightarrow> style \<Rightarrow> style \<Rightarrow> style \<Rightarrow> bool \<Rightarrow> error + string" where
  "ProcessBodyWithInline L h rawBody inline h1Style h2Style bodyStyle disableImages =
     processBody L h rawBody (Some (inlineMapOf inline Map.empty))
       h1Style h2Style bodyStyle disableImages"

definition ProcessBody ::
  "('doc, 'time) lib \<Rightarrow> host \<Rightarrow> string \<Rightarrow> style \<Rightarrow> style \<Rightarrow> style \<Rightarrow> bool
     \<Rightarrow> error + string" where
  "ProcessBody L h rawBody h1Style h2Style bodyStyle disableImages =
     processBody L h rawBody None h1Style h2Style bodyStyle disableImages"

section \<open>Specification-level definitions\<close>

text \<open>
  The definitions of this section follow the words of the specification; the theorems
  compare them with the code.
\<close>

text \<open>The Kitty-family and the iTerm2-family groups of detectors.\<close>

definition kittyFamily :: "host \<Rightarrow> bool" where
  "kittyFamily h = (kittySupported h \<or> ghosttySupported h \<or> weztermSupported h
       \<or> waystSupported h \<or> konsoleSupported h)"

definition iterm2Family :: "host \<Rightarrow> bool" where
  "iterm2Family h = (iterm2Supported h \<or> warpSupported h)"

text \<open>
  A payload split into consecutive chunks of a fixed size, and the chunks in their Kitty
  framing: the first carries the display directives, each carries the continuation flag,
  which is 1 exactly when more chunks follow.
\<close>

function chunksOf :: "nat \<Rightarrow> 'a list \<Rightarrow> 'a list list" where
  "chunksOf n xs = (if xs = [] \<or> n = 0 then [] else take n xs # chunksOf n (drop n xs))"
  by pat_completeness auto
termination
  by (relation "measure (\<lambda>(n, xs). length xs)") auto

fun kittyFrames :: "bool \<Rightarrow> string list \<Rightarrow> string" where
  "kittyFrames first [] = []"
| "kittyFrames first (c # cs) =
     [ESC] @ ''_G'' @ (if first then ''f=100,a=T,q=2,C=1,'' else []) @ ''m=''
     @ (if cs = [] then ''0'' else ''1'') @ '';'' @ c @ [ESC, CHR 0x5C]
     @ kittyFrames False cs"

text \<open>
  The cell height: the window-size query on stdout, stdin, stderr, then the tty handle,
  the first success wins, 18 pixels when none succeeds.  The row count: the ceiling of the
  pixel height over the cell height, at least 1, and 1 when the image does not decode.
\<close>

definition ttyQuery :: "host \<Rightarrow> int" where
  "ttyQuery h = (if ttyOpens h then getCellHeightFromFd h DevTty else 0)"

definition cellHeightSpec :: "host \<Rightarrow> int" where
  "cellHeightSpec h =
     (case find (\<lambda>c. c > 0)
        [getCellHeightFromFd h Stdout, getCellHeightFromFd h Stdin,
         getCellHeightFromFd h Stderr, ttyQuery h] of
        Some c \<Rightarrow> c
      | None \<Rightarrow> 18)"

definition rowsSpec :: "host \<Rightarrow> string \<Rightarrow> int" where
  "rowsSpec h payload =
     (case imageHeight h payload of
        Some ht \<Rightarrow> max 1 \<lceil>real_of_int ht / real_of_int (cellHeightSpec h)\<rceil>
      | None \<Rightarrow> 1)"

definition rowPlaceholder :: "int \<Rightarrow> string" where
  "rowPlaceholder n = ''[[MATCHA_IMG_ROWS:'' @ fmtInt n @ '']]''"

section \<open>Sample inputs\<close>

text \<open>
  A host whose environment names both a Kitty and an iTerm2 terminal, whose standard input
  answers the window-size query with 50 rows of 1000 pixels, and whose decoder knows one
  image, 101 pixels high.
\<close>

definition sampleHost :: host where
  "sampleHost = \<lparr> getenv = (\<lambda>k. if k = ''TERM'' then ''xterm-kitty''
                              else if k = ''TERM_PROGRAM'' then ''iTerm.app'' else []),
      ioctlGetWinsize = (\<lambda>f. if f = Stdin then Some \<lparr> Row = 50, Ypixel = 1000 \<rparr> else None),
      ttyOpens = False,
      imageHeight = (\<lambda>p. if p = ''QUJD'' then Some 101 else None),
      remotePng = (\<lambda>u. []) \<rparr>"

section \<open>Chunks and frames\<close>

declare chunksOf.simps [simp del]
declare kittyChunks.simps [simp del]

lemma concat_chunksOf: "0 < n \<Longrightarrow> concat (chunksOf n xs) = xs"
proof (induction n xs rule: chunksOf.induct)
  case (1 n xs)
  then show ?case
    by (subst chunksOf.simps) auto
qed

lemma chunksOf_unfold:
  "0 < n \<Longrightarrow> xs \<noteq> [] \<Longrightarrow> chunksOf n xs = take n xs # chunksOf n (drop n xs)"
  by (subst chunksOf.simps) simp

lemma chunksOf_Nil [simp]: "chunksOf n [] = []"
  by (subst chunksOf.simps) simp

lemma chunksOf_lengths:
  "0 < n \<Longrightarrow> c \<in> set (chunksOf n xs) \<Longrightarrow> 0 < length c \<and> length c \<le> n"
proof (induction n xs rule: chunksOf.induct)
  case (1 n xs)
  show ?case
  proof (cases "xs = []")
    case True
    with "1.prems" show ?thesis by simp
  next
    case False
    with "1.prems" have "c = take n xs \<or> c \<in> set (chunksOf n (drop n xs))"
      by (simp add: chunksOf_unfold)
    then show ?thesis
    proof
      assume "c = take n xs"
      with False "1.prems" show ?thesis by (cases xs) auto
    next
      assume "c \<in> set (chunksOf n (drop n xs))"
      with "1.IH" False "1.prems" show ?thesis by simp
    qed
  qed
qed

lemma chunksOf_butlast_full:
  "0 < n \<Longrightarrow> c \<in> set (butlast (chunksOf n xs)) \<Longrightarrow> length c = n"
proof (induction n xs rule: chunksOf.induct)
  case (1 n xs)
  show ?case
  proof (cases "xs = []")
    case True
    with "1.prems" show ?thesis by simp
  next
    case False
    note ne = this
    show ?thesis
    proof (cases "drop n xs = []")
      case True
      with ne "1.prems" show ?thesis by (simp add: chunksOf_unfold)
    next
      case False
      then have ne2: "chunksOf n (drop n xs) \<noteq> []"
        using "1.prems" by (simp add: chunksOf_unfold)
      from False have len: "n < length xs" by simp
      from ne ne2 "1.prems" have "c = take n xs \<or> c \<in> set (butlast (chunksOf n (drop n xs)))"
        by (simp add: chunksOf_unfold[of n xs])
      then show ?thesis
      proof
        assume "c = take n xs"
        with len show ?thesis by simp
      next
        assume "c \<in> set (butlast (chunksOf n (drop n xs)))"
        with "1.IH" ne "1.prems" show ?thesis by simp
      qed
    qed
  qed
qed

lemma chunksOf_Nil_iff: "0 < n \<Longrightarrow> chunksOf n xs = [] \<longleftrightarrow> xs = []"
  by (subst chunksOf.simps) simp

lemma kittyChunks_frames:
  "kittyChunks payload offset = kittyFrames (offset = 0) (chunksOf chunkSize (drop offset payload))"
proof (induction payload offset rule: kittyChunks.induct)
  case (1 payload offset)
  show ?case
  proof (cases "offset < length payload")
    case False
    then show ?thesis by (simp add: kittyChunks.simps chunksOf.simps)
  next
    case True
    have cs: "0 < chunkSize" by (simp add: chunkSize_def)
    have ch: "chunksOf chunkSize (drop offset payload)
        = take chunkSize (drop offset payload) # chunksOf chunkSize (drop (offset + chunkSize) payload)"
      using True cs by (subst chunksOf.simps) (simp add: add.commute)
    have more: "chunksOf chunkSize (drop (offset + chunkSize) payload) = [] \<longleftrightarrow>
        \<not> offset + chunkSize < length payload"
      using cs by (auto simp: chunksOf_Nil_iff)
    have tk: "take (min (length payload) (offset + chunkSize) - offset) (drop offset payload)
        = take chunkSize (drop offset payload)"
      using True by (simp add: min_def)
    show ?thesis
      using True cs "1.IH"[OF True refl refl refl] more
      by (subst kittyChunks.simps) (auto simp: ch Let_def not_less min_def)
  qed
qed

lemma kittyChunks_head:
  "payload \<noteq> [] \<Longrightarrow> \<exists>rest. kittyChunks payload 0 = ESC # CHR ''_'' # rest"
  by (subst kittyChunks.simps) (simp add: Let_def)

lemma kitty_neq_iterm2:
  "payload \<noteq> [] \<Longrightarrow> kittyInlineImage h payload \<noteq> iterm2InlineImage h payload"
  using kittyChunks_head[of payload]
  by (auto simp: kittyInlineImage_def iterm2InlineImage_def)

lemma iterm2_nonempty: "payload \<noteq> [] \<Longrightarrow> iterm2InlineImage h payload \<noteq> []"
  by (simp add: iterm2InlineImage_def)

lemma kitty_nonempty: "payload \<noteq> [] \<Longrightarrow> kittyInlineImage h payload \<noteq> []"
  using kittyChunks_head[of payload] by (auto simp: kittyInlineImage_def)

text \<open>
  Claim C3.  For a non-empty payload the Kitty encoder emits the consecutive 4096-byte
  chunks of the payload, whose concatenation is the payload: every chunk but the last has
  4096 bytes and the last has between 1 and 4096.  The first chunk carries
  \<open>f=100,a=T,q=2,C=1\<close>, every chunk carries \<open>m=1\<close> when more chunks follow and \<open>m=0\<close> when it
  is the last, each is framed as \<open>ESC _G ... ESC \\<close>, and one image-row placeholder
  (between two newlines) ends the output.
\<close>

theorem kitty_chunked_encoding:
  assumes "payload \<noteq> []"
  shows "kittyInlineImage h payload
           = kittyFrames True (chunksOf 4096 payload)
             @ [NL] @ ''[[MATCHA_IMG_ROWS:'' @ fmtInt (imageRows h payload) @ '']]'' @ [NL]
         \<and> concat (chunksOf 4096 payload) = payload
         \<and> (\<forall>c \<in> set (butlast (chunksOf 4096 payload)). length c = 4096)
         \<and> chunksOf 4096 payload \<noteq> []
         \<and> 0 < length (last (chunksOf 4096 payload))
         \<and> length (last (chunksOf 4096 payload)) \<le> 4096"
proof -
  have ne: "chunksOf 4096 payload \<noteq> []"
    using assms by (simp add: chunksOf_Nil_iff)
  then have "last (chunksOf 4096 payload) \<in> set (chunksOf 4096 payload)"
    by simp
  then have lst: "0 < length (last (chunksOf 4096 payload)) \<and> length (last (chunksOf 4096 payload)) \<le> 4096"
    by (intro chunksOf_lengths) simp_all
  have enc: "kittyInlineImage h payload
           = kittyFrames True (chunksOf 4096 payload)
             @ [NL] @ ''[[MATCHA_IMG_ROWS:'' @ fmtInt (imageRows h payload) @ '']]'' @ [NL]"
    using assms kittyChunks_frames[of payload 0]
    by (simp add: kittyInlineImage_def chunkSize_def imageRowPlaceholderPrefix_def
          imageRowPlaceholderSuffix_def)
  have full: "\<forall>c \<in> set (butlast (chunksOf 4096 payload)). length c = 4096"
    using chunksOf_butlast_full[of 4096 _ payload] by simp
  show ?thesis
    using ne lst enc full by (simp add: concat_chunksOf)
qed

lemma chunksOf_sample:
  "chunksOf 4096 (replicate 4097 (CHR ''A'')) = [replicate 4096 (CHR ''A''), ''A'']"
proof -
  have d: "drop 4096 (replicate 4097 (CHR ''A'')) = ''A''"
    by simp
  have t: "take 4096 (replicate 4097 (CHR ''A'')) = replicate 4096 (CHR ''A'')"
    by simp
  have "chunksOf 4096 (replicate 4097 (CHR ''A''))
      = take 4096 (replicate 4097 (CHR ''A'')) # chunksOf 4096 (drop 4096 (replicate 4097 (CHR ''A'')))"
    by (rule chunksOf_unfold) simp_all
  also have "chunksOf 4096 (drop 4096 (replicate 4097 (CHR ''A''))) = [''A'']"
    unfolding d by (simp add: chunksOf_unfold)
  finally show ?thesis using t by simp
qed

theorem kitty_chunked_encoding_witness:
  "replicate 4097 (CHR ''A'') \<noteq> [] \<and>
   kittyInlineImage sampleHost (replicate 4097 (CHR ''A''))
     = [ESC] @ ''_Gf=100,a=T,q=2,C=1,m=1;'' @ replicate 4096 (CHR ''A'') @ [ESC, CHR 0x5C]
       @ [ESC] @ ''_Gm=0;A'' @ [ESC, CHR 0x5C]
       @ [NL] @ ''[[MATCHA_IMG_ROWS:1]]'' @ [NL]"
proof -
  have ne: "replicate 4097 (CHR ''A'') \<noteq> []" by simp
  have "length (replicate 4097 (CHR ''A'')) \<noteq> length ''QUJD''" by simp
  then have "replicate 4097 (CHR ''A'') \<noteq> ''QUJD''" by metis
  then have rows: "imageRows sampleHost (replicate 4097 (CHR ''A'')) = 1"
    by (simp add: imageRows_def sampleHost_def)
  show ?thesis
    using kitty_chunked_encoding[OF ne, of sampleHost] ne
    by (simp add: chunksOf_sample rows fmtInt_def digitChar_def)
qed

section \<open>Protocol dispatch\<close>

lemma sampleHost_kitty: "kittySupported sampleHost"
  by (simp add: kittySupported_def sampleHost_def toLower_def toLowerChar_def)

lemma sampleHost_iterm2: "iterm2Supported sampleHost"
  by (simp add: iterm2Supported_def sampleHost_def toLower_def toLowerChar_def)

text \<open>
  Claim C5.  When a Kitty-family detector reports true, \<open>renderInlineImage\<close> gives the
  output of the Kitty encoder, whatever the iTerm2-family detectors say; for a non-empty
  payload it gives the output of the iTerm2 encoder exactly when no Kitty-family detector
  and an iTerm2-family detector reports true; when no detector reports true it gives the
  empty string.
\<close>

theorem renderInlineImage_dispatch:
  "(kittyFamily h \<longrightarrow> renderInlineImage h payload = kittyInlineImage h payload) \<and>
   (payload \<noteq> [] \<longrightarrow>
      (renderInlineImage h payload = iterm2InlineImage h payload
         \<longleftrightarrow> \<not> kittyFamily h \<and> iterm2Family h)) \<and>
   (\<not> imageProtocolSupported h \<longrightarrow> renderInlineImage h payload = []) \<and>
   (imageProtocolSupported h \<longleftrightarrow> kittyFamily h \<or> iterm2Family h)"
  using kitty_neq_iterm2[of payload h] iterm2_nonempty[of payload h]
  by (auto simp: renderInlineImage_def kittyFamily_def iterm2Family_def imageProtocolSupported_def
        kittyInlineImage_def)

theorem renderInlineImage_dispatch_witness:
  "kittyFamily sampleHost \<and> iterm2Family sampleHost \<and>
   renderInlineImage sampleHost ''QUJD'' = kittyInlineImage sampleHost ''QUJD'' \<and>
   renderInlineImage sampleHost ''QUJD'' \<noteq> iterm2InlineImage sampleHost ''QUJD''"
  using renderInlineImage_dispatch[of sampleHost "''QUJD''"] sampleHost_kitty sampleHost_iterm2
  by (auto simp: kittyFamily_def iterm2Family_def)

section \<open>Row counts\<close>

lemma uint_div_bound: "uint (x :: 16 word) div uint (y :: 16 word) \<le> 65535"
proof -
  have "uint x div uint y \<le> uint x"
  proof (cases "uint y = 0")
    case True
    then show ?thesis by simp
  next
    case False
    then have "0 < uint y" by (simp add: order_less_le)
    then have "uint x div uint y \<le> uint x div 1"
      by (intro zdiv_mono2) simp_all
    then show ?thesis by simp
  qed
  moreover have "uint x < 65536"
    using uint_bounded[of x] by simp
  ultimately show ?thesis by linarith
qed

lemma getCellHeightFromFd_range: "0 \<le> getCellHeightFromFd h f \<and> getCellHeightFromFd h f \<le> 65535"
  using uint_div_bound
  by (auto simp: getCellHeightFromFd_def Let_def split: option.splits)

lemma getTerminalCellSize_spec: "getTerminalCellSize h = cellHeightSpec h"
  by (simp add: getTerminalCellSize_def cellHeightSpec_def ttyQuery_def Let_def defaultCellHeight_def)

lemma cellHeightSpec_range: "0 < cellHeightSpec h \<and> cellHeightSpec h \<le> 65535"
  using getCellHeightFromFd_range[of h Stdout] getCellHeightFromFd_range[of h Stdin]
    getCellHeightFromFd_range[of h Stderr] getCellHeightFromFd_range[of h DevTty]
  by (auto simp: cellHeightSpec_def ttyQuery_def)

lemma ceil_div:
  fixes a b :: int
  assumes b: "0 < b"
  shows "(a + b - 1) div b = \<lceil>real_of_int a / real_of_int b\<rceil>"
proof -
  define q where "q = a div b"
  define r where "r = a mod b"
  have a: "a = b * q + r" by (simp add: q_def r_def)
  have r: "0 \<le> r" "r < b" using b by (simp_all add: r_def)
  have lhs: "(a + b - 1) div b = (if r = 0 then q else q + 1)"
  proof (cases "r = 0")
    case True
    have "(a + b - 1) div b = q"
      by (rule int_div_pos_eq[where r = "b - 1"]) (use a True b in \<open>simp_all\<close>)
    with True show ?thesis by simp
  next
    case False
    have "(a + b - 1) div b = q + 1"
      by (rule int_div_pos_eq[where r = "r - 1"]) (use a False r in \<open>simp_all add: algebra_simps\<close>)
    with False show ?thesis by simp
  qed
  have rhs: "(- a) div b = (if r = 0 then - q else - q - 1)"
  proof (cases "r = 0")
    case True
    have "(- a) div b = - q"
      by (rule int_div_pos_eq[where r = 0]) (use a True b in \<open>simp_all\<close>)
    with True show ?thesis by simp
  next
    case False
    have "(- a) div b = - q - 1"
      by (rule int_div_pos_eq[where r = "b - r"]) (use a False r in \<open>simp_all add: algebra_simps\<close>)
    with False show ?thesis by simp
  qed
  have "\<lceil>real_of_int a / real_of_int b\<rceil> = - ((- a) div b)"
    by (simp add: ceiling_divide_eq_div)
  with lhs rhs show ?thesis by simp
qed

lemma int64_id: "- (2 ^ 63) \<le> x \<Longrightarrow> x < 2 ^ 63 \<Longrightarrow> int64 x = x"
  unfolding int64_def by (rule signed_take_bit_int_eq_self) simp_all

lemma goDiv_nonneg: "0 \<le> a \<Longrightarrow> 0 < b \<Longrightarrow> goDiv a b = a div b"
  by (cases "a = 0") (simp_all add: goDiv_def)

lemma imageRows_spec:
  assumes "\<And>ht. imageHeight h p = Some ht \<Longrightarrow> 0 \<le> ht \<and> ht < 2 ^ 62"
  shows "imageRows h p = rowsSpec h p"
proof (cases "imageHeight h p")
  case None
  then show ?thesis by (simp add: imageRows_def rowsSpec_def)
next
  case (Some ht)
  with assms have ht: "0 \<le> ht" "ht < 2 ^ 62" by auto
  let ?c = "cellHeightSpec h"
  have c: "0 < ?c" "?c \<le> 65535" using cellHeightSpec_range[of h] by auto
  have s1: "int64 (ht + ?c) = ht + ?c"
    by (rule int64_id) (use ht c in simp_all)
  have s2: "int64 (ht + ?c - 1) = ht + ?c - 1"
    by (rule int64_id) (use ht c in simp_all)
  have "goDiv (ht + ?c - 1) ?c = (ht + ?c - 1) div ?c"
    by (rule goDiv_nonneg) (use ht c in simp_all)
  also have "\<dots> = \<lceil>real_of_int ht / real_of_int ?c\<rceil>"
    by (rule ceil_div) (use c in simp)
  finally show ?thesis
    using Some by (simp add: imageRows_def rowsSpec_def getTerminalCellSize_spec s1 s2 Let_def max_def)
qed

text \<open>
  Claim C6.  For a payload that decodes to an image of height \<open>ht\<close> (a decoded image is
  between 0 and \<open>2^62\<close> pixels high), the row count of both encoders is the ceiling of
  \<open>ht\<close> over the cell height, and at least 1, where the cell height is the first positive
  answer among stdout, stdin, stderr and the tty, and 18 when there is none; for a payload
  that does not decode the row count is 1; in both cases the encoders produce output, which
  ends with the placeholder of that row count.
\<close>

theorem image_rows_ceiling:
  assumes "payload \<noteq> []"
    and "\<forall>ht. imageHeight h payload = Some ht \<longrightarrow> 0 \<le> ht \<and> ht < 2 ^ 62"
  shows "imageRows h payload = rowsSpec h payload
         \<and> 1 \<le> rowsSpec h payload
         \<and> (imageHeight h payload = None \<longrightarrow> rowsSpec h payload = 1)
         \<and> kittyInlineImage h payload
             = kittyChunks payload 0 @ [NL] @ rowPlaceholder (rowsSpec h payload) @ [NL]
         \<and> iterm2InlineImage h payload
             = [ESC] @ '']1337;File=inline=1:'' @ payload @ [BEL, NL]
               @ rowPlaceholder (rowsSpec h payload) @ [NL]
         \<and> kittyInlineImage h payload \<noteq> [] \<and> iterm2InlineImage h payload \<noteq> []"
proof -
  have r: "imageRows h payload = rowsSpec h payload"
    by (rule imageRows_spec) (use assms(2) in auto)
  have one: "1 \<le> rowsSpec h payload"
    by (simp add: rowsSpec_def split: option.splits)
  have none: "imageHeight h payload = None \<longrightarrow> rowsSpec h payload = 1"
    by (simp add: rowsSpec_def)
  show ?thesis
    using assms(1) r one none kitty_nonempty[of payload h]
    by (simp add: kittyInlineImage_def iterm2InlineImage_def rowPlaceholder_def
          imageRowPlaceholderPrefix_def imageRowPlaceholderSuffix_def)
qed

theorem image_rows_ceiling_witness:
  "''QUJD'' \<noteq> [] \<and> imageHeight sampleHost ''QUJD'' = Some 101 \<and>
   getTerminalCellSize sampleHost = 20 \<and> imageRows sampleHost ''QUJD'' = 6 \<and>
   rowsSpec sampleHost ''QUJD'' = 6"
proof -
  have ne: "''QUJD'' \<noteq> []" by simp
  have hyp: "\<forall>ht. imageHeight sampleHost ''QUJD'' = Some ht \<longrightarrow> 0 \<le> ht \<and> ht < 2 ^ 62"
    by (simp add: sampleHost_def)
  have spec: "rowsSpec sampleHost ''QUJD'' = 6"
    by (simp add: rowsSpec_def sampleHost_def cellHeightSpec_def getCellHeightFromFd_def ttyQuery_def)
  have cell: "getTerminalCellSize sampleHost = 20"
    by (simp add: getTerminalCellSize_def sampleHost_def getCellHeightFromFd_def)
  show ?thesis
    using image_rows_ceiling[OF ne hyp] spec cell by (simp add: sampleHost_def)
qed

end
